theory Spec2Isabelle
  imports Complex_Main "HOL-Library.Word"
begin

unbundle bit_operations_syntax

section \<open>The joystick reader (joystick.js)\<close>

text \<open>
  The reader owns one eight-byte \<open>Buffer\<close>, decodes it with \<open>parse\<close> and filters axis
  events in \<open>onRead\<close>. Bytes are \<open>8 word\<close>; every other JavaScript number is an
  unbounded \<open>int\<close> or \<open>nat\<close>, since none of the values handled here leaves the range in
  which JavaScript numbers are exact integers.
\<close>

type_synonym byte = "8 word"

datatype js_error = RangeError | TypeError

text \<open>\<open>event.type\<close> is \<open>'button'\<close>, \<open>'axis'\<close> or was never assigned.\<close>

datatype kind = Button | Axis

record event =
  ev_time :: nat
  ev_value :: int
  ev_number :: nat
  ev_init :: bool
  ev_type :: "kind option"
  ev_id :: nat

subsection \<open>Buffer reads\<close>

text \<open>
  \<open>buf.readUInt32LE(offset)\<close> and \<open>buf.readInt16LE(offset)\<close> of Node: a bounds check
  that throws a \<open>RangeError\<close>, then the little-endian sum of the bytes; the 16-bit read
  is sign-extended. \<open>byte_at\<close> is \<open>buf[i]\<close>; an index past the end (which the reader's
  eight-byte buffer never produces) is reported as an error instead of a made-up value.
\<close>

definition readUInt32LE :: "byte list \<Rightarrow> nat \<Rightarrow> js_error + nat" where
  "readUInt32LE buf off =
     (if off + 4 \<le> length buf
      then Inr (unat (buf ! off) + unat (buf ! (off + 1)) * 2 ^ 8
                + unat (buf ! (off + 2)) * 2 ^ 16 + unat (buf ! (off + 3)) * 2 ^ 24)
      else Inl RangeError)"

definition readInt16LE :: "byte list \<Rightarrow> nat \<Rightarrow> js_error + int" where
  "readInt16LE buf off =
     (if off + 2 \<le> length buf
      then Inr (sint (word_of_nat (unat (buf ! off) + unat (buf ! (off + 1)) * 2 ^ 8) :: 16 word))
      else Inl RangeError)"

definition byte_at :: "byte list \<Rightarrow> nat \<Rightarrow> js_error + byte" where
  "byte_at buf i = (if i < length buf then Inr (buf ! i) else Inl RangeError)"

subsection \<open>parse\<close>

text \<open>
  The two type tests are separate \<open>if\<close> statements, in this order: a type byte with
  bits 0 and 1 both set is first tagged \<open>'button'\<close> and then re-tagged \<open>'axis'\<close>.
\<close>

definition parse :: "nat \<Rightarrow> byte list \<Rightarrow> js_error + event" where
  "parse jid buffer =
     (case readUInt32LE buffer 0 of Inl err \<Rightarrow> Inl err | Inr t \<Rightarrow>
     (case readInt16LE buffer 4 of Inl err \<Rightarrow> Inl err | Inr v \<Rightarrow>
     (case byte_at buffer 7 of Inl err \<Rightarrow> Inl err | Inr n \<Rightarrow>
     (case byte_at buffer 6 of Inl err \<Rightarrow> Inl err | Inr ty \<Rightarrow>
        (let ini = (ty AND 0x80 \<noteq> 0);
             type1 = (if ty AND 0x01 \<noteq> 0 then Some Button else None);
             type2 = (if ty AND 0x02 \<noteq> 0 then Some Axis else type1)
         in Inr \<lparr>ev_time = t, ev_value = v, ev_number = unat n, ev_init = ini,
                  ev_type = type2, ev_id = jid\<rparr>)))))"

subsection \<open>onRead: the axis filter\<close>

text \<open>
  The constructor arguments and the two sparse arrays \<open>lastAxisValue\<close> and
  \<open>lastAxisEmittedValue\<close>, indexed by control number. A slot never written reads
  \<open>undefined\<close>, here \<open>None\<close>.
\<close>

record joystick =
  js_id :: nat
  deadzone :: int
  sensitivity :: int

record joystick_state =
  lastAxisValue :: "nat \<rightharpoonup> int"
  lastAxisEmittedValue :: "nat \<rightharpoonup> int"

definition joystick_init :: joystick_state where
  "joystick_init = \<lparr>lastAxisValue = Map.empty, lastAxisEmittedValue = Map.empty\<rparr>"

text \<open>
  Line 105, the condition of the inner \<open>if\<close>: the stored raw value is truthy, the
  new value is within \<open>sensitivity\<close> of it, and the new value is not 0.
\<close>

definition within_sensitivity :: "joystick \<Rightarrow> joystick_state \<Rightarrow> event \<Rightarrow> bool" where
  "within_sensitivity j s e =
     (case lastAxisValue s (ev_number e) of
        None \<Rightarrow> False
      | Some l \<Rightarrow> l \<noteq> 0 \<and> \<bar>l - ev_value e\<bar> < sensitivity j \<and> ev_value e \<noteq> 0)"

text \<open>Lines 104-111: the sensitivity test. Returns the \<open>squelch\<close> flag and the state.\<close>

definition sensitivity_stage :: "joystick \<Rightarrow> joystick_state \<Rightarrow> event \<Rightarrow> bool \<times> joystick_state" where
  "sensitivity_stage j s e =
     (if sensitivity j \<noteq> 0 then
        (if within_sensitivity j s e
         then (True, s)
         else (False, s\<lparr>lastAxisValue := (lastAxisValue s)(ev_number e \<mapsto> ev_value e)\<rparr>))
      else (False, s))"

text \<open>Line 113: the deadzone clamp.\<close>

definition deadzone_stage :: "joystick \<Rightarrow> event \<Rightarrow> event" where
  "deadzone_stage j e =
     (if deadzone j \<noteq> 0 \<and> \<bar>ev_value e\<bar> < deadzone j then e\<lparr>ev_value := 0\<rparr> else e)"

text \<open>
  Lines 115-119: the comparison with the last emitted value. The slot is overwritten
  whenever the values differ, whatever the \<open>squelch\<close> flag already says.
\<close>

definition duplicate_stage :: "joystick_state \<Rightarrow> event \<Rightarrow> bool \<Rightarrow> bool \<times> joystick_state" where
  "duplicate_stage s e squelch =
     (if lastAxisEmittedValue s (ev_number e) = Some (ev_value e)
      then (True, s)
      else (squelch,
            s\<lparr>lastAxisEmittedValue := (lastAxisEmittedValue s)(ev_number e \<mapsto> ev_value e)\<rparr>))"

text \<open>
  Lines 101-122 on a decoded event: the new state and the event handed to
  \<open>this.emit\<close>, if any. Events that are not axis events are emitted as they are.
\<close>

definition filter_event :: "joystick \<Rightarrow> joystick_state \<Rightarrow> event \<Rightarrow> joystick_state \<times> event option" where
  "filter_event j s e =
     (if ev_type e = Some Axis then
        (let (sq1, s1) = sensitivity_stage j s e;
             e1 = deadzone_stage j e;
             (sq2, s2) = duplicate_stage s1 e1 sq1
         in (s2, if sq2 then None else Some e1))
      else (s, Some e))"

text \<open>
  \<open>onRead\<close>: an \<open>err\<close> from the read is emitted as \<open>'error'\<close> and nothing else happens;
  otherwise the buffer is decoded and filtered.
\<close>

datatype emitted = Emit_error | Emit event

definition onRead :: "joystick \<Rightarrow> joystick_state \<Rightarrow> bool \<Rightarrow> byte list
    \<Rightarrow> js_error + joystick_state \<times> emitted list" where
  "onRead j s err buffer =
     (if err then Inr (s, [Emit_error])
      else case parse (js_id j) buffer of
        Inl x \<Rightarrow> Inl x
      | Inr e \<Rightarrow> (let (s', out) = filter_event j s e
                 in Inr (s', case out of None \<Rightarrow> [] | Some e' \<Rightarrow> [Emit e'])))"

text \<open>Successive reads: the state after a list of decoded events and the events forwarded.\<close>

fun run :: "joystick \<Rightarrow> joystick_state \<Rightarrow> event list \<Rightarrow> joystick_state \<times> event list" where
  "run j s [] = (s, [])"
| "run j s (e # es) =
     (let (s1, out) = filter_event j s e;
          (s2, outs) = run j s1 es
      in (s2, (case out of None \<Rightarrow> [] | Some e' \<Rightarrow> [e']) @ outs))"

text \<open>
  The read loop on raw records: \<open>onRead\<close> on each buffer in turn, with what was emitted.
\<close>

fun read_all :: "joystick \<Rightarrow> joystick_state \<Rightarrow> byte list list
    \<Rightarrow> js_error + joystick_state \<times> emitted list" where
  "read_all j s [] = Inr (s, [])"
| "read_all j s (b # bs) =
     (case onRead j s False b of
        Inl x \<Rightarrow> Inl x
      | Inr (s1, out) \<Rightarrow>
          (case read_all j s1 bs of
             Inl x \<Rightarrow> Inl x
           | Inr (s2, outs) \<Rightarrow> Inr (s2, out @ outs)))"

text \<open>An axis event of control \<open>n\<close> with raw value \<open>v\<close>, as \<open>parse\<close> builds it.\<close>

definition axis_event :: "nat \<Rightarrow> int \<Rightarrow> event" where
  "axis_event n v = \<lparr>ev_time = 0, ev_value = v, ev_number = n, ev_init = False,
                     ev_type = Some Axis, ev_id = 0\<rparr>"

section \<open>The pendant (index.js)\<close>

subsection \<open>Timers\<close>

text \<open>
  The event loop's timer table: the clock in milliseconds, the next handle and the
  armed timers as (handle, due time), in the order they were armed. \<open>setTimeout\<close>
  arms a timer and returns its handle. \<open>clearTimeout\<close> disarms the timer of a handle
  and does nothing when it is given anything else (the number 0, a function).
\<close>

record timer_queue =
  tq_now :: nat
  tq_next :: nat
  tq_armed :: "(nat \<times> nat) list"

datatype timer_ref = Handle nat | Not_a_handle

definition timers_init :: timer_queue where
  "timers_init = \<lparr>tq_now = 0, tq_next = 1, tq_armed = []\<rparr>"

definition setTimeout :: "nat \<Rightarrow> timer_queue \<Rightarrow> timer_ref \<times> timer_queue" where
  "setTimeout delay q =
     (Handle (tq_next q),
      q\<lparr>tq_next := tq_next q + 1, tq_armed := tq_armed q @ [(tq_next q, tq_now q + delay)]\<rparr>)"

definition clearTimeout :: "timer_ref \<Rightarrow> timer_queue \<Rightarrow> timer_queue" where
  "clearTimeout r q =
     (case r of
        Handle h \<Rightarrow> q\<lparr>tq_armed := filter (\<lambda>(i, due). i \<noteq> h) (tq_armed q)\<rparr>
      | Not_a_handle \<Rightarrow> q)"

text \<open>
  The clock moves to \<open>t\<close>: the timers due by then, in the order they were armed, and
  the table without them.
\<close>

definition take_due :: "nat \<Rightarrow> timer_queue \<Rightarrow> nat list \<times> timer_queue" where
  "take_due t q =
     (map fst (filter (\<lambda>(i, due). due \<le> t) (tq_armed q)),
      q\<lparr>tq_now := max (tq_now q) t, tq_armed := filter (\<lambda>(i, due). \<not> due \<le> t) (tq_armed q)\<rparr>)"

subsection \<open>ButtonState\<close>

datatype callback = ShortPressed | LongPressed | LongCanceled

record ButtonState =
  pending :: bool
  long_pressed :: bool
  timeout :: nat
  timeout_id :: timer_ref

definition ButtonState_new :: "nat \<Rightarrow> ButtonState" where
  "ButtonState_new t = \<lparr>pending = False, long_pressed = False, timeout = t,
                        timeout_id = Not_a_handle\<rparr>"

text \<open>
  A button together with the timer table it arms its timer in and the callbacks it has
  invoked so far, oldest first. Every timer of this table is the button's own
  \<open>onTimeout\<close>.
\<close>

record button_world =
  bw_timers :: timer_queue
  bw_button :: ButtonState
  bw_calls :: "callback list"

definition button_world_new :: "nat \<Rightarrow> button_world" where
  "button_world_new t = \<lparr>bw_timers = timers_init, bw_button = ButtonState_new t, bw_calls = []\<rparr>"

definition press :: "button_world \<Rightarrow> button_world" where
  "press w =
     (if \<not> pending (bw_button w) then
        (let (h, q) = setTimeout (timeout (bw_button w)) (bw_timers w)
         in w\<lparr>bw_button := (bw_button w)\<lparr>pending := True, timeout_id := h\<rparr>, bw_timers := q\<rparr>)
      else w)"

definition unpress :: "button_world \<Rightarrow> button_world" where
  "unpress w =
     (if pending (bw_button w) then
        (if \<not> long_pressed (bw_button w) then
           w\<lparr>bw_button := (bw_button w)\<lparr>pending := False\<rparr>,
             bw_timers := clearTimeout (timeout_id (bw_button w)) (bw_timers w),
             bw_calls := bw_calls w @ [ShortPressed]\<rparr>
         else
           w\<lparr>bw_button := (bw_button w)\<lparr>pending := False, long_pressed := False\<rparr>,
             bw_calls := bw_calls w @ [LongCanceled]\<rparr>)
      else w)"

definition onTimeout :: "button_world \<Rightarrow> button_world" where
  "onTimeout w = w\<lparr>bw_button := (bw_button w)\<lparr>long_pressed := True\<rparr>,
                   bw_calls := bw_calls w @ [LongPressed]\<rparr>"

text \<open>The event loop reaches time \<open>t\<close>: every timer due by then runs \<open>onTimeout\<close>.\<close>

definition button_advance :: "nat \<Rightarrow> button_world \<Rightarrow> button_world" where
  "button_advance t w =
     (let (due, q) = take_due t (bw_timers w)
      in foldl (\<lambda>w' h. onTimeout w') (w\<lparr>bw_timers := q\<rparr>) due)"

datatype button_input = Press | Unpress

text \<open>An input arriving at time \<open>t\<close> is handled after the timers due by \<open>t\<close>.\<close>

definition button_step :: "nat \<times> button_input \<Rightarrow> button_world \<Rightarrow> button_world" where
  "button_step ti w =
     (let w' = button_advance (fst ti) w
      in case snd ti of Press \<Rightarrow> press w' | Unpress \<Rightarrow> unpress w')"

text \<open>A button at rest: not pending, not long-pressed, no timer armed.\<close>

definition idle :: "button_world \<Rightarrow> bool" where
  "idle w = (\<not> pending (bw_button w) \<and> \<not> long_pressed (bw_button w)
             \<and> tq_armed (bw_timers w) = [])"

subsection \<open>AxisState\<close>

record AxisState =
  ax_value :: int
  ax_active :: bool

definition AxisState_new :: AxisState where
  "AxisState_new = \<lparr>ax_value = 0, ax_active = False\<rparr>"

definition update :: "int \<Rightarrow> AxisState \<Rightarrow> AxisState" where
  "update v a = a\<lparr>ax_value := v, ax_active := (v \<noteq> 0)\<rparr>"

definition sign :: "AxisState \<Rightarrow> int" where
  "sign a = sgn (ax_value a)"

subsection \<open>Selector\<close>

text \<open>
  \<open>index\<close> is a JavaScript number that only ever holds integers; \<open>get\<close> reads
  \<open>options[index]\<close>, which is \<open>undefined\<close> (here \<open>None\<close>) outside the list.
\<close>

record 'a Selector =
  index :: int
  options :: "'a list"

definition Selector_new :: "int \<Rightarrow> 'a list \<Rightarrow> 'a Selector" where
  "Selector_new default_index opts = \<lparr>index = default_index, options = opts\<rparr>"

definition increase :: "'a Selector \<Rightarrow> 'a Selector" where
  "increase s = s\<lparr>index := min (index s + 1) (int (length (options s)) - 1)\<rparr>"

definition decrease :: "'a Selector \<Rightarrow> 'a Selector" where
  "decrease s = s\<lparr>index := max (index s - 1) 0\<rparr>"

definition get :: "'a Selector \<Rightarrow> 'a option" where
  "get s = (if 0 \<le> index s \<and> index s < int (length (options s))
            then Some (options s ! nat (index s)) else None)"

datatype selector_op = Increase | Decrease

fun apply_op :: "'a Selector \<Rightarrow> selector_op \<Rightarrow> 'a Selector" where
  "apply_op s Increase = increase s"
| "apply_op s Decrease = decrease s"

definition STEP_FEEDRATES :: "int list" where
  "STEP_FEEDRATES = [100, 500, 1000, 2000]"

definition STEP_DISTANCES :: "real list" where
  "STEP_DISTANCES = [0.01, 0.1, 1.0, 10.0]"

definition step_distance_selection :: "real Selector" where
  "step_distance_selection = Selector_new 2 STEP_DISTANCES"

definition step_feedrate_selection :: "int Selector" where
  "step_feedrate_selection = Selector_new 2 STEP_FEEDRATES"

subsection \<open>Constants\<close>

definition SPINDLE_MIN_SPEED :: real where "SPINDLE_MIN_SPEED = 0"
definition SPINDLE_MAX_SPEED :: real where "SPINDLE_MAX_SPEED = 24000"
definition MAX_JOG_FEEDRATE :: real where "MAX_JOG_FEEDRATE = 3000"
definition JOG_COMMAND_TIMEOUT :: nat where "JOG_COMMAND_TIMEOUT = 1000"
definition JOYSTICK_AXIS_MAX :: real where "JOYSTICK_AXIS_MAX = 32767"

subsection \<open>Numbers as text: toFixed\<close>

text \<open>
  JavaScript numbers in the arithmetic below are modelled as exact reals.
  \<open>x.toFixed(f)\<close> yields a string: a minus sign when \<open>x < 0\<close>, then the integer \<open>n\<close>
  nearest to \<open>\<bar>x\<bar> * 10 ^ f\<close> (the larger one on a tie) written with \<open>f\<close> decimals. The
  string is kept as \<open>Fixed neg n f\<close>; \<open>Number_of\<close> is its value when the string is
  used as a number again (\<open>Math.abs\<close> of it), \<open>fixed_text\<close> its characters when it is
  concatenated.
\<close>

datatype fixed = Fixed bool nat nat

definition toFixed :: "real \<Rightarrow> nat \<Rightarrow> fixed" where
  "toFixed x f = Fixed (x < 0) (nat \<lfloor>\<bar>x\<bar> * 10 ^ f + 1 / 2\<rfloor>) f"

fun Number_of :: "fixed \<Rightarrow> real" where
  "Number_of (Fixed neg n f) = (if neg then - (real n / 10 ^ f) else real n / 10 ^ f)"

fun digits_of :: "nat \<Rightarrow> string" where
  "digits_of n =
     (if n < 10 then [''0123456789'' ! n]
      else digits_of (n div 10) @ [''0123456789'' ! (n mod 10)])"

declare digits_of.simps [simp del]

fun fixed_text :: "fixed \<Rightarrow> string" where
  "fixed_text (Fixed neg n f) =
     (let ds = digits_of n;
          padded = replicate (Suc f - length ds) (CHR ''0'') @ ds;
          whole = take (length padded - f) padded;
          frac = drop (length padded - f) padded
      in (if neg then ''-'' else []) @ whole @ (if f = 0 then [] else ''.'' @ frac))"

subsection \<open>The two functions named map\<close>

text \<open>
  The module body declares \<open>function map\<close> twice, at line 462 with five parameters and
  at line 502 with three. Both declarations are hoisted and the later one replaces the
  earlier, so every call of \<open>map\<close> in the module, whatever its position and number of
  arguments, runs the three-parameter body; surplus arguments are ignored.
  \<open>map_js\<close> is that body, \<open>map_shadowed\<close> the five-parameter one that is never run.
\<close>

definition map_shadowed :: "real \<Rightarrow> real \<Rightarrow> real \<Rightarrow> real \<Rightarrow> real \<Rightarrow> fixed" where
  "map_shadowed x in_min in_max out_min out_max =
     toFixed ((x - in_min) * (out_max - out_min) / (in_max - in_min) + out_min) 2"

definition map_js :: "real \<Rightarrow> real \<Rightarrow> real \<Rightarrow> fixed" where
  "map_js x in_range_half out_range_half =
     toFixed ((x + in_range_half) * out_range_half / in_range_half - out_range_half) 2"

subsection \<open>Continuous-jog feedrate\<close>

definition feedrate :: "int \<Rightarrow> real" where
  "feedrate v = \<bar>Number_of (map_js (real_of_int v) JOYSTICK_AXIS_MAX MAX_JOG_FEEDRATE)\<bar>"

definition decideFeedrate :: "AxisState \<Rightarrow> AxisState \<Rightarrow> AxisState \<Rightarrow> real" where
  "decideFeedrate x y z =
     (let jog_feedrate = sqrt ((feedrate (ax_value x))\<^sup>2 + (feedrate (ax_value y))\<^sup>2)
      in if ax_active z then
           (let z_jog_feedrate = feedrate (ax_value z)
            in if jog_feedrate \<noteq> 0 then min jog_feedrate z_jog_feedrate else z_jog_feedrate)
         else jog_feedrate)"

subsection \<open>Socket output\<close>

text \<open>
  \<open>socket.emit('write', port, data)\<close> and \<open>socket.emit('command', port, name, arg)\<close>;
  the port is the same in every call and is left out.
\<close>

datatype socket_emit = Write string | Command string string

subsection \<open>Spindle control\<close>

record spindle =
  lb :: bool
  rb :: bool
  lt :: int
  rt :: int
  spindle_active :: bool
  sp_socket :: "socket_emit list"

definition spindle_init :: spindle where
  "spindle_init = \<lparr>lb = False, rb = False, lt = 0, rt = 0, spindle_active = False,
                    sp_socket = []\<rparr>"

definition JOG_CANCEL_CMD :: string where
  "JOG_CANCEL_CMD = [CHR 0x85]"

definition onLB :: "int \<Rightarrow> spindle \<Rightarrow> spindle" where
  "onLB v s =
     (let s1 = s\<lparr>lb := (v \<noteq> 0)\<rparr>;
          s2 = (if \<not> lb s1 then s1\<lparr>sp_socket := sp_socket s1 @ [Write JOG_CANCEL_CMD]\<rparr> else s1)
      in if \<not> lb s2 \<and> spindle_active s2
         then s2\<lparr>sp_socket := sp_socket s2 @ [Command ''gcode'' ''M5''], spindle_active := False\<rparr>
         else s2)"

definition onRB :: "int \<Rightarrow> spindle \<Rightarrow> spindle" where
  "onRB v s =
     (let s1 = s\<lparr>rb := (v \<noteq> 0)\<rparr>
      in if \<not> rb s1 \<and> spindle_active s1
         then s1\<lparr>sp_socket := sp_socket s1 @ [Command ''gcode'' ''M5''], spindle_active := False\<rparr>
         else s1)"

definition onLT :: "int \<Rightarrow> spindle \<Rightarrow> spindle" where
  "onLT v s = s\<lparr>lt := v\<rparr>"

definition onRT :: "int \<Rightarrow> spindle \<Rightarrow> spindle" where
  "onRT v s = s\<lparr>rt := v\<rparr>"

text \<open>
  \<open>triggerMovement\<close> calls \<open>map\<close> with five arguments; the three-parameter body binds
  the first three: \<open>rt\<close>, \<open>-JOYSTICK_AXIS_MAX\<close> and \<open>JOYSTICK_AXIS_MAX\<close>.
\<close>

definition triggerMovement :: "spindle \<Rightarrow> spindle" where
  "triggerMovement s =
     (if lb s \<and> rb s then
        s\<lparr>spindle_active := True,
          sp_socket := sp_socket s @
            [Command ''gcode''
               (''M3 S'' @ fixed_text (map_js (real_of_int (rt s)) (- JOYSTICK_AXIS_MAX)
                                        JOYSTICK_AXIS_MAX))]\<rparr>
      else s)"

subsection \<open>The jog throttle\<close>

text \<open>\<open>data.includes(p)\<close>: \<open>p\<close> occurs in \<open>data\<close> as a contiguous substring.\<close>

fun str_includes :: "string \<Rightarrow> string \<Rightarrow> bool" where
  "str_includes [] p = (p = [])"
| "str_includes (c # cs) p = (take (length p) (c # cs) = p \<or> str_includes cs p)"

text \<open>
  \<open>jog_pending\<close>, the timer table and what was emitted, with the time of each emission.
  Every timer of this table is a \<open>jogPendingTimeout\<close>. \<open>jog\<close> drops the handle that
  \<open>setTimeout\<close> returns, and the \<open>serialport:read\<close> listener hands \<open>clearTimeout\<close> the
  function \<open>jogPendingTimeout\<close> itself, which is not a handle.
\<close>

record jog_world =
  jw_timers :: timer_queue
  jog_pending :: bool
  jw_socket :: "(nat \<times> socket_emit) list"
  jw_console :: "string list"

definition jog_world_init :: jog_world where
  "jog_world_init = \<lparr>jw_timers = timers_init, jog_pending = False, jw_socket = [],
                      jw_console = []\<rparr>"

definition jog :: "string \<Rightarrow> jog_world \<Rightarrow> jog_world" where
  "jog cmd w =
     (if \<not> jog_pending w then
        w\<lparr>jw_socket := jw_socket w @ [(tq_now (jw_timers w), Command ''gcode'' cmd)],
          jog_pending := True,
          jw_timers := snd (setTimeout JOG_COMMAND_TIMEOUT (jw_timers w))\<rparr>
      else w)"

definition jogPendingTimeout :: "jog_world \<Rightarrow> jog_world" where
  "jogPendingTimeout w = w\<lparr>jog_pending := False\<rparr>"

definition serialport_read :: "string \<Rightarrow> jog_world \<Rightarrow> jog_world" where
  "serialport_read data w =
     (if str_includes data ''ok'' \<or> str_includes data ''error'' then
        w\<lparr>jog_pending := False, jw_timers := clearTimeout Not_a_handle (jw_timers w)\<rparr>
      else w\<lparr>jw_console := jw_console w @ [''Unhandled response: '' @ data]\<rparr>)"

definition jog_advance :: "nat \<Rightarrow> jog_world \<Rightarrow> jog_world" where
  "jog_advance t w =
     (let (due, q) = take_due t (jw_timers w)
      in foldl (\<lambda>w' h. jogPendingTimeout w') (w\<lparr>jw_timers := q\<rparr>) due)"

datatype jog_input = Jog string | Read string

definition jog_step :: "jog_world \<Rightarrow> nat \<times> jog_input \<Rightarrow> jog_world" where
  "jog_step w ti =
     (let w' = jog_advance (fst ti) w
      in case snd ti of Jog cmd \<Rightarrow> jog cmd w' | Read data \<Rightarrow> serialport_read data w')"

subsection \<open>Dispatch of joystick events\<close>

datatype handler =
  onA_h | onB_h | onXXX_h | onX_h | onY_h | onLB_h | onRB_h | onStart_h | onL3_h | onR3_h
  | onLSX_h | onLSY_h | onRSX_h | onRSY_h | onRT_h | onLT_h | onPADX_h | onPADY_h

definition BUTTONS :: "(nat \<times> string \<times> handler) list" where
  "BUTTONS =
     [(0, ''A'', onA_h), (1, ''B'', onB_h), (2, ''2'', onXXX_h), (3, ''X'', onX_h),
      (4, ''Y'', onY_h), (5, ''5'', onXXX_h), (6, ''LB'', onLB_h), (7, ''RB'', onRB_h),
      (8, ''8'', onXXX_h), (9, ''9'', onXXX_h), (10, ''10'', onXXX_h),
      (11, ''START'', onStart_h), (12, ''12'', onXXX_h), (13, ''L3'', onL3_h),
      (14, ''R3'', onR3_h)]"

definition AXES :: "(nat \<times> string \<times> handler) list" where
  "AXES =
     [(0, ''LSX'', onLSX_h), (1, ''LSY'', onLSY_h), (2, ''RSX'', onRSX_h),
      (3, ''RSY'', onRSY_h), (4, ''RT'', onRT_h), (5, ''LT'', onLT_h),
      (6, ''PADX'', onPADX_h), (7, ''PADY'', onPADY_h)]"

text \<open>
  What a listener does with an event: lines it logs and the handler it calls with the
  event's value. \<open>BUTTONS[e.number]\<close> of a number that is not a key is \<open>undefined\<close>,
  and reading \<open>.id\<close> or \<open>.cb\<close> of \<open>undefined\<close> throws a \<open>TypeError\<close>.
\<close>

datatype effect = Console_log string int | Call handler int

definition joy_on_button :: "event \<Rightarrow> js_error + effect list" where
  "joy_on_button e =
     (case map_of BUTTONS (ev_number e) of
        None \<Rightarrow> Inl TypeError
      | Some (name, cb) \<Rightarrow>
          if ev_init e then Inr [Console_log name (ev_value e)]
          else Inr [Call cb (ev_value e)])"

definition joy_on_axis :: "event \<Rightarrow> js_error + effect list" where
  "joy_on_axis e =
     (case map_of AXES (ev_number e) of
        None \<Rightarrow> Inl TypeError
      | Some (name, cb) \<Rightarrow>
          if ev_init e then Inr [Console_log name (ev_value e)]
          else Inr [Console_log name (ev_value e), Call cb (ev_value e)])"

text \<open>\<open>this.emit(event.type, event)\<close>: an event of no type reaches no listener.\<close>

definition deliver :: "event \<Rightarrow> js_error + effect list" where
  "deliver e =
     (case ev_type e of
        None \<Rightarrow> Inr []
      | Some Button \<Rightarrow> joy_on_button e
      | Some Axis \<Rightarrow> joy_on_axis e)"

section \<open>Properties of the decoder\<close>

lemma test_bit_byte:
  fixes ty :: byte
  shows "(ty AND 0x80 \<noteq> 0) = bit ty 7" "(ty AND 0x02 \<noteq> 0) = bit ty 1"
    "(ty AND 0x01 \<noteq> 0) = bit ty 0"
proof -
  have "(ty AND push_bit 7 1 \<noteq> 0) = bit ty 7"
    by (simp only: bit_iff_and_push_bit_not_eq_0)
  then show "(ty AND 0x80 \<noteq> 0) = bit ty 7" by simp
  have "(ty AND push_bit 1 1 \<noteq> 0) = bit ty 1"
    by (simp only: bit_iff_and_push_bit_not_eq_0)
  then show "(ty AND 0x02 \<noteq> 0) = bit ty 1" by simp
  have "(ty AND push_bit 0 1 \<noteq> 0) = bit ty 0"
    by (simp only: bit_iff_and_push_bit_not_eq_0)
  then show "(ty AND 0x01 \<noteq> 0) = bit ty 0" by simp
qed

text \<open>The sign-extended 16-bit read, in integer arithmetic.\<close>

lemma sint16_of_bytes:
  fixes lo hi :: byte
  shows "sint (word_of_nat (unat lo + unat hi * 2 ^ 8) :: 16 word) =
    (if unat hi < 128 then int (unat lo) + 256 * int (unat hi)
     else int (unat lo) + 256 * int (unat hi) - 65536)"
proof -
  have lo: "unat lo < 256" using unsigned_less [of lo, where ?'a = nat] by simp
  have hi: "unat hi < 256" using unsigned_less [of hi, where ?'a = nat] by simp
  define x where "x = int (unat lo + unat hi * 256)"
  have x: "0 \<le> x" "x < 65536" using lo hi unfolding x_def by linarith+
  have w: "(word_of_nat (unat lo + unat hi * 2 ^ 8) :: 16 word) = word_of_int x"
    unfolding x_def by simp
  have s: "sint (word_of_int x :: 16 word) = (x + 32768) mod 65536 - 32768"
    by (simp add: int_word_sint)
  have xe: "x = int (unat lo) + 256 * int (unat hi)"
    unfolding x_def by linarith
  show ?thesis
  proof (cases "unat hi < 128")
    case True
    then have "x < 32768" using lo unfolding x_def by linarith
    then have "(x + 32768) mod 65536 = x + 32768" using x by simp
    then have "sint (word_of_int x :: 16 word) = x" using s by simp
    then show ?thesis using True unfolding w xe by simp
  next
    case False
    then have "32768 \<le> x" unfolding x_def by linarith
    then have "(x + 32768) mod 65536 = x + 32768 - 65536" using x
      by (simp add: mod_pos_geq)
    then have "sint (word_of_int x :: 16 word) = x - 65536" using s by simp
    then show ?thesis using False unfolding w xe by simp
  qed
qed

text \<open>On an eight-byte buffer no read is out of range, and \<open>parse\<close> returns this event.\<close>

lemma parse_eight_bytes:
  assumes "length buffer = 8"
  shows "parse jid buffer = Inr \<lparr>ev_time = unat (buffer ! 0) + unat (buffer ! 1) * 2 ^ 8
                + unat (buffer ! 2) * 2 ^ 16 + unat (buffer ! 3) * 2 ^ 24,
      ev_value = sint (word_of_nat (unat (buffer ! 4) + unat (buffer ! 5) * 2 ^ 8) :: 16 word),
      ev_number = unat (buffer ! 7), ev_init = bit (buffer ! 6) 7,
      ev_type = (if bit (buffer ! 6) 1 then Some Axis
                 else if bit (buffer ! 6) 0 then Some Button else None),
      ev_id = jid\<rparr>"
  using assms
  by (simp add: parse_def readUInt32LE_def readInt16LE_def byte_at_def test_bit_byte Let_def
      numeral_2_eq_2)

lemma uint32_of_bytes_less:
  fixes a b c d :: byte
  shows "unat a + unat b * 2 ^ 8 + unat c * 2 ^ 16 + unat d * 2 ^ 24 < (2 ^ 32 :: nat)"
proof -
  have "unat a < 256" "unat b < 256" "unat c < 256" "unat d < 256"
    using unsigned_less [of a, where ?'a = nat] unsigned_less [of b, where ?'a = nat]
      unsigned_less [of c, where ?'a = nat] unsigned_less [of d, where ?'a = nat]
    by simp_all
  then show ?thesis by simp
qed

text \<open>
  C9, as amended. For every eight-byte buffer \<open>parse\<close> returns an event and raises nothing.
  Its time is the little-endian unsigned 32-bit value of bytes 0-3, its value the
  little-endian two's-complement 16-bit value of bytes 4-5, its number is byte 7, and
  \<open>init\<close> is bit 7 of byte 6. The type is \<open>'axis'\<close> exactly when bit 1 of byte 6 is set,
  \<open>'button'\<close> exactly when bit 0 is set and bit 1 is clear, and unassigned when both
  are clear. \<open>parse\<close> is a function of the buffer and the joystick id alone.
\<close>

theorem parse_layout:
  assumes "length buffer = 8"
  shows "\<exists>e. parse jid buffer = Inr e
    \<and> ev_time e = unat (buffer ! 0) + 2 ^ 8 * unat (buffer ! 1)
         + 2 ^ 16 * unat (buffer ! 2) + 2 ^ 24 * unat (buffer ! 3)
    \<and> ev_time e < 2 ^ 32
    \<and> ev_value e = (if unat (buffer ! 5) < 128
         then int (unat (buffer ! 4)) + 256 * int (unat (buffer ! 5))
         else int (unat (buffer ! 4)) + 256 * int (unat (buffer ! 5)) - 65536)
    \<and> - 32768 \<le> ev_value e \<and> ev_value e \<le> 32767
    \<and> (ev_type e = Some Axis) = bit (buffer ! 6) 1
    \<and> (ev_type e = Some Button) = (bit (buffer ! 6) 0 \<and> \<not> bit (buffer ! 6) 1)
    \<and> (ev_type e = None) = (\<not> bit (buffer ! 6) 0 \<and> \<not> bit (buffer ! 6) 1)
    \<and> ev_init e = bit (buffer ! 6) 7
    \<and> ev_number e = unat (buffer ! 7)
    \<and> ev_id e = jid"
proof -
  define v where "v = sint (word_of_nat (unat (buffer ! 4) + unat (buffer ! 5) * 2 ^ 8) :: 16 word)"
  define t where "t = unat (buffer ! 0) + unat (buffer ! 1) * 2 ^ 8 + unat (buffer ! 2) * 2 ^ 16
      + unat (buffer ! 3) * 2 ^ 24"
  have v_eq: "v = (if unat (buffer ! 5) < 128
         then int (unat (buffer ! 4)) + 256 * int (unat (buffer ! 5))
         else int (unat (buffer ! 4)) + 256 * int (unat (buffer ! 5)) - 65536)"
    unfolding v_def by (rule sint16_of_bytes)
  have range: "- 32768 \<le> v" "v \<le> 32767"
    using sint_ge [of "word_of_nat (unat (buffer ! 4) + unat (buffer ! 5) * 2 ^ 8) :: 16 word"]
      sint_lt [of "word_of_nat (unat (buffer ! 4) + unat (buffer ! 5) * 2 ^ 8) :: 16 word"]
    unfolding v_def by simp_all
  have t_less: "t < 2 ^ 32"
    unfolding t_def by (rule uint32_of_bytes_less)
  have t_eq: "t = unat (buffer ! 0) + 2 ^ 8 * unat (buffer ! 1)
         + 2 ^ 16 * unat (buffer ! 2) + 2 ^ 24 * unat (buffer ! 3)"
    unfolding t_def by simp
  have p: "parse jid buffer = Inr \<lparr>ev_time = t, ev_value = v,
      ev_number = unat (buffer ! 7), ev_init = bit (buffer ! 6) 7,
      ev_type = (if bit (buffer ! 6) 1 then Some Axis
                 else if bit (buffer ! 6) 0 then Some Button else None),
      ev_id = jid\<rparr>"
    unfolding v_def t_def by (rule parse_eight_bytes [OF assms])
  show ?thesis
    unfolding p using range t_less v_eq [symmetric] t_eq [symmetric] by simp
qed

text \<open>The record 01 02 03 04 FF FF 82 09: an init axis event of control 9 with value -1.\<close>

theorem parse_layout_witness:
  "length [1, 2, 3, 4, 0xFF, 0xFF, 0x82, 9 :: byte] = 8
   \<and> (\<exists>e. parse 0 [1, 2, 3, 4, 0xFF, 0xFF, 0x82, 9] = Inr e
        \<and> ev_time e = 67305985 \<and> ev_value e = - 1 \<and> ev_type e = Some Axis
        \<and> ev_init e \<and> ev_number e = 9)"
proof -
  have len: "length [1, 2, 3, 4, 0xFF, 0xFF, 0x82, 9 :: byte] = 8" by simp
  from parse_layout [OF len, of 0] obtain e where
    e: "parse 0 [1, 2, 3, 4, 0xFF, 0xFF, 0x82, 9] = Inr e"
      "ev_time e = unat ([1, 2, 3, 4, 0xFF, 0xFF, 0x82, 9 :: byte] ! 0)
         + 2 ^ 8 * unat ([1, 2, 3, 4, 0xFF, 0xFF, 0x82, 9 :: byte] ! 1)
         + 2 ^ 16 * unat ([1, 2, 3, 4, 0xFF, 0xFF, 0x82, 9 :: byte] ! 2)
         + 2 ^ 24 * unat ([1, 2, 3, 4, 0xFF, 0xFF, 0x82, 9 :: byte] ! 3)"
      "ev_value e = (if unat ([1, 2, 3, 4, 0xFF, 0xFF, 0x82, 9 :: byte] ! 5) < 128
         then int (unat ([1, 2, 3, 4, 0xFF, 0xFF, 0x82, 9 :: byte] ! 4))
              + 256 * int (unat ([1, 2, 3, 4, 0xFF, 0xFF, 0x82, 9 :: byte] ! 5))
         else int (unat ([1, 2, 3, 4, 0xFF, 0xFF, 0x82, 9 :: byte] ! 4))
              + 256 * int (unat ([1, 2, 3, 4, 0xFF, 0xFF, 0x82, 9 :: byte] ! 5)) - 65536)"
      "(ev_type e = Some Axis) = bit ([1, 2, 3, 4, 0xFF, 0xFF, 0x82, 9 :: byte] ! 6) 1"
      "ev_init e = bit ([1, 2, 3, 4, 0xFF, 0xFF, 0x82, 9 :: byte] ! 6) 7"
      "ev_number e = unat ([1, 2, 3, 4, 0xFF, 0xFF, 0x82, 9 :: byte] ! 7)"
    by blast
  have "ev_time e = 67305985" using e(2) by simp
  moreover have "ev_value e = - 1" using e(3) by simp
  moreover have "ev_type e = Some Axis" using e(4) by simp
  moreover have "ev_init e" using e(5) by simp
  moreover have "ev_number e = 9" using e(6) by simp
  ultimately show ?thesis using e(1) len by blast
qed

text \<open>
  C9 as stated fails on a type byte with bits 0 and 1 both set: bit 0 of the byte 03
  is set, yet the event is tagged \<open>'axis'\<close>, not \<open>'button'\<close>.
\<close>

theorem parse_both_bits_counterexample:
  "bit (3 :: byte) 0
   \<and> parse 0 [0, 0, 0, 0, 0, 0, 3, 0]
       = Inr \<lparr>ev_time = 0, ev_value = 0, ev_number = 0, ev_init = False,
              ev_type = Some Axis, ev_id = 0\<rparr>"
  by (simp add: parse_def readUInt32LE_def readInt16LE_def byte_at_def)

section \<open>Properties of the axis filter\<close>

lemmas filter_defs = filter_event_def sensitivity_stage_def within_sensitivity_def
  deadzone_stage_def duplicate_stage_def

text \<open>With sensitivity 0 the filter never writes \<open>lastAxisValue\<close>.\<close>

lemma run_raw_frozen:
  "sensitivity j = 0 \<Longrightarrow> lastAxisValue (fst (run j s es)) = lastAxisValue s"
proof (induction es arbitrary: s)
  case Nil
  then show ?case by simp
next
  case (Cons e es)
  have step: "lastAxisValue (fst (filter_event j s e)) = lastAxisValue s"
    using Cons.prems
    by (simp add: filter_event_def sensitivity_stage_def duplicate_stage_def Let_def)
  show ?case
    using Cons.IH [OF Cons.prems, of "fst (filter_event j s e)"] step
    by (simp add: split_beta Let_def)
qed

text \<open>The two outcomes of the sensitivity test, and the test switched off.\<close>

lemma filter_event_squelched:
  assumes "ev_type e = Some Axis" "within_sensitivity j s e"
  shows "snd (filter_event j s e) = None"
    and "lastAxisValue (fst (filter_event j s e)) = lastAxisValue s"
proof -
  have "sensitivity j \<noteq> 0"
    using assms(2) by (auto simp: within_sensitivity_def split: option.splits)
  then show "snd (filter_event j s e) = None"
    and "lastAxisValue (fst (filter_event j s e)) = lastAxisValue s"
    using assms
    by (simp_all add: filter_event_def sensitivity_stage_def duplicate_stage_def Let_def)
qed

lemma filter_event_stored:
  assumes "ev_type e = Some Axis" "sensitivity j \<noteq> 0" "\<not> within_sensitivity j s e"
  shows "lastAxisValue (fst (filter_event j s e)) = (lastAxisValue s)(ev_number e \<mapsto> ev_value e)"
  using assms
  by (simp add: filter_event_def sensitivity_stage_def duplicate_stage_def Let_def)

lemma filter_event_untouched:
  assumes "sensitivity j = 0"
  shows "lastAxisValue (fst (filter_event j s e)) = lastAxisValue s"
  using assms
  by (simp add: filter_event_def sensitivity_stage_def duplicate_stage_def Let_def)

text \<open>
  Events of one control that are nonzero and within sensitivity of the stored nonzero
  raw value are all suppressed, and the stored value stays.
\<close>

lemma run_all_squelched:
  assumes "lastAxisValue s n = Some l" "l \<noteq> 0"
    and "\<forall>e \<in> set es. ev_type e = Some Axis \<and> ev_number e = n \<and> ev_value e \<noteq> 0
           \<and> \<bar>l - ev_value e\<bar> < sensitivity j"
  shows "snd (run j s es) = [] \<and> lastAxisValue (fst (run j s es)) = lastAxisValue s"
  using assms
proof (induction es arbitrary: s)
  case Nil
  then show ?case by simp
next
  case (Cons e es)
  have w: "within_sensitivity j s e" and ax: "ev_type e = Some Axis"
    using Cons.prems by (simp_all add: within_sensitivity_def)
  note sq = filter_event_squelched [OF ax w]
  have "lastAxisValue (fst (filter_event j s e)) n = Some l"
    using sq(2) Cons.prems(1) by simp
  then have "snd (run j (fst (filter_event j s e)) es) = []
      \<and> lastAxisValue (fst (run j (fst (filter_event j s e)) es))
          = lastAxisValue (fst (filter_event j s e))"
    using Cons.IH [of "fst (filter_event j s e)"] Cons.prems by simp
  then show ?case using sq by (simp add: split_beta Let_def)
qed

text \<open>
  C10. In every state the reader can reach from its initial state, an axis event on a
  control whose stored raw value is 0 is not suppressed by the sensitivity test,
  whatever the sensitivity and however small the change: the stored 0 is falsy. The
  event's value becomes the stored raw value, and the event goes on to the deadzone
  clamp and the comparison with the last emitted value, which alone decides whether it
  is forwarded. (A stored 0 implies a sensitivity other than 0, since with sensitivity
  0 nothing is ever stored.)
\<close>

theorem zero_bypass:
  assumes "ev_type e = Some Axis"
    and "s = fst (run j joystick_init es)"
    and "lastAxisValue s (ev_number e) = Some 0"
  shows "\<not> fst (sensitivity_stage j s e)
    \<and> lastAxisValue (fst (filter_event j s e)) (ev_number e) = Some (ev_value e)
    \<and> snd (filter_event j s e) =
        (if lastAxisEmittedValue s (ev_number e) = Some (ev_value (deadzone_stage j e))
         then None else Some (deadzone_stage j e))"
proof -
  have sens: "sensitivity j \<noteq> 0"
  proof
    assume "sensitivity j = 0"
    then have "lastAxisValue s = lastAxisValue joystick_init"
      unfolding assms(2) by (rule run_raw_frozen)
    then show False using assms(3) by (simp add: joystick_init_def)
  qed
  have nw: "\<not> within_sensitivity j s e"
    using assms(3) by (simp add: within_sensitivity_def)
  show ?thesis
    using sens nw assms(1)
    by (simp add: filter_event_def sensitivity_stage_def duplicate_stage_def deadzone_stage_def
        Let_def)
qed

text \<open>
  Sensitivity 100, no deadzone: after a first value 0, the value 50 is forwarded and
  stored although it is only 50 away.
\<close>

theorem zero_bypass_witness:
  "ev_type (axis_event 0 50) = Some Axis
   \<and> lastAxisValue (fst (run \<lparr>js_id = 0, deadzone = 0, sensitivity = 100\<rparr> joystick_init
        [axis_event 0 0])) (ev_number (axis_event 0 50)) = Some 0
   \<and> lastAxisValue (fst (filter_event \<lparr>js_id = 0, deadzone = 0, sensitivity = 100\<rparr>
        (fst (run \<lparr>js_id = 0, deadzone = 0, sensitivity = 100\<rparr> joystick_init [axis_event 0 0]))
        (axis_event 0 50))) 0 = Some 50
   \<and> snd (filter_event \<lparr>js_id = 0, deadzone = 0, sensitivity = 100\<rparr>
        (fst (run \<lparr>js_id = 0, deadzone = 0, sensitivity = 100\<rparr> joystick_init [axis_event 0 0]))
        (axis_event 0 50)) = Some (axis_event 0 50)"
proof -
  let ?j = "\<lparr>js_id = 0, deadzone = 0, sensitivity = 100\<rparr>"
  let ?s = "fst (run ?j joystick_init [axis_event 0 0])"
  have a: "ev_type (axis_event 0 50) = Some Axis" by (simp add: axis_event_def)
  have b: "lastAxisValue ?s (ev_number (axis_event 0 50)) = Some 0"
    by (simp add: joystick_init_def axis_event_def filter_defs Let_def)
  have c: "lastAxisEmittedValue ?s 0 = Some 0"
    by (simp add: joystick_init_def axis_event_def filter_defs Let_def)
  have d: "deadzone_stage ?j (axis_event 0 50) = axis_event 0 50"
    by (simp add: deadzone_stage_def)
  have n: "ev_number (axis_event 0 50) = 0" "ev_value (axis_event 0 50) = 50"
    by (simp_all add: axis_event_def)
  show ?thesis
    using zero_bypass [OF a refl b] a b c unfolding d n by simp
qed

text \<open>
  C6, as amended. For every axis event: (1) if a nonzero raw value is stored for the
  control, the new value is within sensitivity of it and the new value is not 0, the
  event is suppressed and the stored raw value stays; (2) if the sensitivity is not 0
  and the test of (1) fails, which is what \<open>within_sensitivity\<close> decides, the new value
  is stored; (3) with sensitivity 0 the stored raw values are never touched; (4) once
  a nonzero value has been stored by (2), no later event of a run on the same control is
  forwarded as long as each is nonzero and within sensitivity of that stored first
  value: the run forwards what its first event alone forwards.
\<close>

theorem sensitivity_squelch:
  assumes "ev_type e = Some Axis"
  shows "(\<forall>l. lastAxisValue s (ev_number e) = Some l \<and> l \<noteq> 0
             \<and> \<bar>ev_value e - l\<bar> < sensitivity j \<and> ev_value e \<noteq> 0
           \<longrightarrow> snd (filter_event j s e) = None
               \<and> lastAxisValue (fst (filter_event j s e)) = lastAxisValue s)
    \<and> (sensitivity j \<noteq> 0 \<and> \<not> within_sensitivity j s e
           \<longrightarrow> lastAxisValue (fst (filter_event j s e))
                 = (lastAxisValue s)(ev_number e \<mapsto> ev_value e))
    \<and> (sensitivity j = 0
           \<longrightarrow> lastAxisValue (fst (filter_event j s e)) = lastAxisValue s)
    \<and> (sensitivity j \<noteq> 0 \<and> \<not> within_sensitivity j s e \<and> ev_value e \<noteq> 0
         \<and> (\<forall>e' \<in> set es. ev_type e' = Some Axis \<and> ev_number e' = ev_number e
                \<and> ev_value e' \<noteq> 0 \<and> \<bar>ev_value e - ev_value e'\<bar> < sensitivity j)
           \<longrightarrow> snd (run j s (e # es)) = snd (run j s [e]))"
proof (intro conjI allI impI)
  fix l
  assume h: "lastAxisValue s (ev_number e) = Some l \<and> l \<noteq> 0
             \<and> \<bar>ev_value e - l\<bar> < sensitivity j \<and> ev_value e \<noteq> 0"
  then have w: "within_sensitivity j s e"
    by (simp add: within_sensitivity_def abs_minus_commute)
  show "snd (filter_event j s e) = None"
    by (rule filter_event_squelched(1) [OF assms w])
  show "lastAxisValue (fst (filter_event j s e)) = lastAxisValue s"
    by (rule filter_event_squelched(2) [OF assms w])
next
  assume "sensitivity j \<noteq> 0 \<and> \<not> within_sensitivity j s e"
  then show "lastAxisValue (fst (filter_event j s e))
      = (lastAxisValue s)(ev_number e \<mapsto> ev_value e)"
    using filter_event_stored [OF assms] by blast
next
  assume "sensitivity j = 0"
  then show "lastAxisValue (fst (filter_event j s e)) = lastAxisValue s"
    by (rule filter_event_untouched)
next
  assume h: "sensitivity j \<noteq> 0 \<and> \<not> within_sensitivity j s e \<and> ev_value e \<noteq> 0
         \<and> (\<forall>e' \<in> set es. ev_type e' = Some Axis \<and> ev_number e' = ev_number e
                \<and> ev_value e' \<noteq> 0 \<and> \<bar>ev_value e - ev_value e'\<bar> < sensitivity j)"
  let ?s1 = "fst (filter_event j s e)"
  have st: "lastAxisValue ?s1 (ev_number e) = Some (ev_value e)"
    using filter_event_stored [OF assms, of j s] h by simp
  have "snd (run j ?s1 es) = []"
    using run_all_squelched [OF st, of es j] h by blast
  then show "snd (run j s (e # es)) = snd (run j s [e])"
    by (simp add: split_beta Let_def)
qed

text \<open>
  Deadzone 750, sensitivity 100: after 20000, the value 20050 is suppressed and 20000
  stays stored; from the initial state 20000 is stored, and the run 20000, 20050, 19960
  forwards 20000 only; with sensitivity 0 nothing is stored.
\<close>

theorem sensitivity_squelch_witness:
  "snd (filter_event \<lparr>js_id = 0, deadzone = 750, sensitivity = 100\<rparr>
         (fst (run \<lparr>js_id = 0, deadzone = 750, sensitivity = 100\<rparr> joystick_init
                [axis_event 0 20000]))
         (axis_event 0 20050)) = None
   \<and> lastAxisValue (fst (filter_event \<lparr>js_id = 0, deadzone = 750, sensitivity = 100\<rparr>
         (fst (run \<lparr>js_id = 0, deadzone = 750, sensitivity = 100\<rparr> joystick_init
                [axis_event 0 20000]))
         (axis_event 0 20050))) 0 = Some 20000
   \<and> lastAxisValue (fst (filter_event \<lparr>js_id = 0, deadzone = 750, sensitivity = 100\<rparr>
         joystick_init (axis_event 0 20000))) 0 = Some 20000
   \<and> lastAxisValue (fst (filter_event \<lparr>js_id = 0, deadzone = 750, sensitivity = 0\<rparr>
         joystick_init (axis_event 0 20000))) 0 = None
   \<and> map ev_value (snd (run \<lparr>js_id = 0, deadzone = 750, sensitivity = 100\<rparr> joystick_init
         [axis_event 0 20000, axis_event 0 20050, axis_event 0 19960])) = [20000]"
proof -
  let ?j = "\<lparr>js_id = 0, deadzone = 750, sensitivity = 100\<rparr> :: joystick"
  let ?jz = "\<lparr>js_id = 0, deadzone = 750, sensitivity = 0\<rparr> :: joystick"
  let ?s = "fst (run ?j joystick_init [axis_event 0 20000])"
  have ax: "\<And>v. ev_type (axis_event 0 v) = Some Axis" by (simp add: axis_event_def)
  have n: "\<And>v. ev_number (axis_event 0 v) = 0" "\<And>v. ev_value (axis_event 0 v) = v"
    by (simp_all add: axis_event_def)
  have stored: "lastAxisValue ?s 0 = Some 20000"
    by (simp add: joystick_init_def axis_event_def filter_defs Let_def)
  have a: "snd (filter_event ?j ?s (axis_event 0 20050)) = None
      \<and> lastAxisValue (fst (filter_event ?j ?s (axis_event 0 20050))) = lastAxisValue ?s"
    using sensitivity_squelch [OF ax, of ?s 20050 ?j "[]"] stored unfolding n by simp
  have nw: "\<not> within_sensitivity ?j joystick_init (axis_event 0 20000)"
    by (simp add: within_sensitivity_def joystick_init_def)
  have b: "lastAxisValue (fst (filter_event ?j joystick_init (axis_event 0 20000)))
      = (lastAxisValue joystick_init)(0 \<mapsto> 20000)"
    using sensitivity_squelch [OF ax, of joystick_init 20000 ?j "[]"] nw unfolding n by simp
  have c: "lastAxisValue (fst (filter_event ?jz joystick_init (axis_event 0 20000)))
      = lastAxisValue joystick_init"
    using sensitivity_squelch [OF ax, of joystick_init 20000 ?jz "[]"] by simp
  have d: "snd (run ?j joystick_init [axis_event 0 20000, axis_event 0 20050, axis_event 0 19960])
      = snd (run ?j joystick_init [axis_event 0 20000])"
    using sensitivity_squelch [OF ax, of joystick_init 20000 ?j
        "[axis_event 0 20050, axis_event 0 19960]"] nw
    unfolding n by (simp add: ax n)
  have e: "map ev_value (snd (run ?j joystick_init [axis_event 0 20000])) = [20000]"
    by (simp add: joystick_init_def axis_event_def filter_defs Let_def)
  show ?thesis
    using a b c d e stored by (simp add: joystick_init_def)
qed

text \<open>
  C6 as stated fails in three ways. The run 20000, 20060, 20120 has consecutive
  differences of 60, below the sensitivity 100, and nonzero values, yet 20120 is
  forwarded: the test compares with the stored 20000. After a stored 0 the value 50 is
  forwarded and stored, although a prior value exists and 50 is within sensitivity of
  it. With sensitivity 0 an event that is not suppressed still stores nothing.
\<close>

theorem sensitivity_squelch_counterexample:
  "map ev_value (snd (run \<lparr>js_id = 0, deadzone = 750, sensitivity = 100\<rparr> joystick_init
       [axis_event 0 20000, axis_event 0 20060, axis_event 0 20120])) = [20000, 20120]
   \<and> lastAxisValue (fst (run \<lparr>js_id = 0, deadzone = 0, sensitivity = 100\<rparr> joystick_init
       [axis_event 0 0])) 0 = Some 0
   \<and> map ev_value (snd (run \<lparr>js_id = 0, deadzone = 0, sensitivity = 100\<rparr> joystick_init
       [axis_event 0 0, axis_event 0 50])) = [0, 50]
   \<and> lastAxisValue (fst (run \<lparr>js_id = 0, deadzone = 0, sensitivity = 100\<rparr> joystick_init
       [axis_event 0 0, axis_event 0 50])) 0 = Some 50
   \<and> lastAxisValue (fst (filter_event \<lparr>js_id = 0, deadzone = 750, sensitivity = 0\<rparr>
       joystick_init (axis_event 0 20000))) 0 = None"
  by (simp add: joystick_init_def axis_event_def filter_defs Let_def)

text \<open>
  C7: the code at the records 0, 700, 760, 0 of axis 0 (deadzone 750, sensitivity 100).
  The value 700 is clamped to 0 and dropped as a duplicate; 760 is suppressed by the
  sensitivity test but still overwrites \<open>lastAxisEmittedValue\<close>; the final 0 then differs
  from that slot and is emitted. Two consecutive forwarded events carry the value 0.
\<close>

theorem duplicate_squelch_repeats:
  "read_all \<lparr>js_id = 0, deadzone = 750, sensitivity = 100\<rparr> joystick_init
     [[0, 0, 0, 0, 0x00, 0x00, 0x02, 0],
      [0, 0, 0, 0, 0xBC, 0x02, 0x02, 0],
      [0, 0, 0, 0, 0xF8, 0x02, 0x02, 0],
      [0, 0, 0, 0, 0x00, 0x00, 0x02, 0]]
   = Inr (\<lparr>lastAxisValue = [0 \<mapsto> 0], lastAxisEmittedValue = [0 \<mapsto> 0]\<rparr>,
          [Emit (axis_event 0 0), Emit (axis_event 0 0)])"
  by (simp add: joystick_init_def axis_event_def filter_defs Let_def onRead_def parse_def
      readUInt32LE_def readInt16LE_def byte_at_def)

text \<open>The clamp itself: a forwarded axis event whose raw value is inside the deadzone carries 0.\<close>

lemma deadzone_clamp:
  assumes "ev_type e = Some Axis" "0 < deadzone j" "\<bar>ev_value e\<bar> < deadzone j"
    and "snd (filter_event j s e) = Some e'"
  shows "ev_value e' = 0"
  using assms
  by (auto simp: filter_event_def deadzone_stage_def duplicate_stage_def Let_def split_beta
      split: if_splits)

section \<open>Properties of the Selector\<close>

lemma apply_op_options [simp]: "options (apply_op s x) = options s"
  by (cases x) (simp_all add: increase_def decrease_def)

lemma apply_op_bounds:
  assumes "0 \<le> index s" "index s \<le> int (length (options s)) - 1"
  shows "0 \<le> index (apply_op s x) \<and> index (apply_op s x) \<le> int (length (options s)) - 1"
proof (cases x)
  case Increase
  have "index (increase s) = min (index s + 1) (int (length (options s)) - 1)"
    by (simp add: increase_def)
  then show ?thesis using assms Increase by (simp only: apply_op.simps) linarith
next
  case Decrease
  have "index (decrease s) = max (index s - 1) 0"
    by (simp add: decrease_def)
  then show ?thesis using assms Decrease by (simp only: apply_op.simps) linarith
qed

lemma foldl_apply_op_options [simp]: "options (foldl apply_op s ops) = options s"
  by (induction ops arbitrary: s) simp_all

lemma foldl_apply_op_bounds:
  assumes "0 \<le> index s" "index s \<le> int (length (options s)) - 1"
  shows "0 \<le> index (foldl apply_op s ops)
    \<and> index (foldl apply_op s ops) \<le> int (length (options s)) - 1"
  using assms
proof (induction ops arbitrary: s)
  case Nil
  then show ?case by simp
next
  case (Cons x xs)
  from apply_op_bounds [OF Cons.prems, of x]
  show ?case using Cons.IH [of "apply_op s x"] by simp
qed

lemma get_in_options:
  assumes "0 \<le> index s" "index s \<le> int (length (options s)) - 1"
  shows "\<exists>x \<in> set (options s). get s = Some x"
proof -
  have "nat (index s) < length (options s)" using assms by linarith
  then have "options s ! nat (index s) \<in> set (options s)" by (rule nth_mem)
  moreover have "get s = Some (options s ! nat (index s))"
    using assms by (simp add: get_def)
  ultimately show ?thesis by blast
qed

text \<open>
  C8. A Selector whose index starts within \<open>[0, len - 1]\<close> keeps it there under every
  sequence of \<open>increase\<close> and \<open>decrease\<close> calls, the options are untouched, \<open>get\<close>
  returns an element of the options, and \<open>increase\<close> at \<open>len - 1\<close> and \<open>decrease\<close> at 0
  change nothing.
\<close>

theorem selector_bounds:
  assumes "0 \<le> index s" "index s \<le> int (length (options s)) - 1"
  shows "0 \<le> index (foldl apply_op s ops)
    \<and> index (foldl apply_op s ops) \<le> int (length (options s)) - 1
    \<and> options (foldl apply_op s ops) = options s
    \<and> (\<exists>x \<in> set (options s). get (foldl apply_op s ops) = Some x)
    \<and> (index s = int (length (options s)) - 1 \<longrightarrow> increase s = s)
    \<and> (index s = 0 \<longrightarrow> decrease s = s)"
proof -
  note b = foldl_apply_op_bounds [OF assms, of ops]
  have "\<exists>x \<in> set (options (foldl apply_op s ops)). get (foldl apply_op s ops) = Some x"
    by (rule get_in_options) (use b in simp_all)
  then show ?thesis using b by (simp add: increase_def decrease_def)
qed

text \<open>
  The step-feedrate selector of the pendant, which starts at index 2 of 100, 500, 1000,
  2000: three increases stop at index 3, three decreases at index 0.
\<close>

theorem selector_bounds_witness:
  "0 \<le> index step_feedrate_selection
   \<and> index step_feedrate_selection \<le> int (length (options step_feedrate_selection)) - 1
   \<and> index (foldl apply_op step_feedrate_selection [Increase, Increase, Increase]) = 3
   \<and> get (foldl apply_op step_feedrate_selection [Increase, Increase, Increase]) = Some 2000
   \<and> index (foldl apply_op step_feedrate_selection [Decrease, Decrease, Decrease]) = 0
   \<and> get (foldl apply_op step_feedrate_selection [Decrease, Decrease, Decrease]) = Some 100
   \<and> increase (foldl apply_op step_feedrate_selection [Increase]) 
       = foldl apply_op step_feedrate_selection [Increase]
   \<and> decrease (foldl apply_op step_feedrate_selection [Decrease, Decrease])
       = foldl apply_op step_feedrate_selection [Decrease, Decrease]"
proof -
  have a: "0 \<le> index step_feedrate_selection"
    and b: "index step_feedrate_selection \<le> int (length (options step_feedrate_selection)) - 1"
    by (simp_all add: step_feedrate_selection_def Selector_new_def STEP_FEEDRATES_def)
  let ?hi = "foldl apply_op step_feedrate_selection [Increase]"
  let ?lo = "foldl apply_op step_feedrate_selection [Decrease, Decrease]"
  have hi: "0 \<le> index ?hi" "index ?hi \<le> int (length (options ?hi)) - 1"
      "index ?hi = int (length (options ?hi)) - 1"
    and lo: "0 \<le> index ?lo" "index ?lo \<le> int (length (options ?lo)) - 1" "index ?lo = 0"
    by (simp_all add: step_feedrate_selection_def Selector_new_def STEP_FEEDRATES_def
        increase_def decrease_def)
  have "increase ?hi = ?hi" using selector_bounds [OF hi(1,2), of "[]"] hi(3) by blast
  moreover have "decrease ?lo = ?lo" using selector_bounds [OF lo(1,2), of "[]"] lo(3) by blast
  moreover have "index (foldl apply_op step_feedrate_selection [Increase, Increase, Increase]) = 3"
    "get (foldl apply_op step_feedrate_selection [Increase, Increase, Increase]) = Some 2000"
    "index (foldl apply_op step_feedrate_selection [Decrease, Decrease, Decrease]) = 0"
    "get (foldl apply_op step_feedrate_selection [Decrease, Decrease, Decrease]) = Some 100"
    by (simp_all add: step_feedrate_selection_def Selector_new_def STEP_FEEDRATES_def
        increase_def decrease_def get_def)
  ultimately show ?thesis using a b by blast
qed

section \<open>Properties of ButtonState\<close>

lemma take_due_none:
  assumes "tq_armed q = []"
  shows "take_due t q = ([], q\<lparr>tq_now := max (tq_now q) t\<rparr>)"
  using assms by (simp add: take_due_def)

lemma button_advance_idle:
  assumes "idle w"
  shows "button_advance t w = w\<lparr>bw_timers := (bw_timers w)\<lparr>tq_now := max (tq_now (bw_timers w)) t\<rparr>\<rparr>"
  using assms by (simp add: button_advance_def idle_def take_due_none)

text \<open>The state after a press at \<open>t0\<close> from rest.\<close>

lemma press_from_idle:
  assumes "idle w" "tq_now (bw_timers w) \<le> t0"
  shows "button_step (t0, Press) w =
    w\<lparr>bw_button := (bw_button w)\<lparr>pending := True, timeout_id := Handle (tq_next (bw_timers w))\<rparr>,
      bw_timers := \<lparr>tq_now = t0, tq_next = tq_next (bw_timers w) + 1,
                     tq_armed = [(tq_next (bw_timers w), t0 + timeout (bw_button w))]\<rparr>\<rparr>"
  using assms
  by (simp add: button_step_def button_advance_idle press_def setTimeout_def idle_def max_def)

text \<open>Released before the timer is due: the timer is cleared and only the short press is called.\<close>

lemma short_press:
  assumes "idle w" "tq_now (bw_timers w) \<le> t0" "t0 \<le> t1" "t1 < t0 + timeout (bw_button w)"
  shows "button_step (t1, Unpress) (button_step (t0, Press) w) =
    w\<lparr>bw_button := (bw_button w)\<lparr>pending := False, timeout_id := Handle (tq_next (bw_timers w))\<rparr>,
      bw_timers := \<lparr>tq_now = t1, tq_next = tq_next (bw_timers w) + 1, tq_armed = []\<rparr>,
      bw_calls := bw_calls w @ [ShortPressed]\<rparr>"
  unfolding press_from_idle [OF assms(1,2)]
  using assms
  by (simp add: button_step_def button_advance_def take_due_def unpress_def clearTimeout_def
      idle_def max_def)

text \<open>Held until the timer is due: the timer runs \<open>onTimeout\<close> once.\<close>

lemma long_press_fired:
  assumes "idle w" "tq_now (bw_timers w) \<le> t0" "t0 + timeout (bw_button w) \<le> t"
  shows "button_advance t (button_step (t0, Press) w) =
    w\<lparr>bw_button := (bw_button w)\<lparr>pending := True, long_pressed := True,
                                    timeout_id := Handle (tq_next (bw_timers w))\<rparr>,
      bw_timers := \<lparr>tq_now = t, tq_next = tq_next (bw_timers w) + 1, tq_armed = []\<rparr>,
      bw_calls := bw_calls w @ [LongPressed]\<rparr>"
  unfolding press_from_idle [OF assms(1,2)]
  using assms
  by (simp add: button_advance_def take_due_def onTimeout_def idle_def max_def)

lemma long_press:
  assumes "idle w" "tq_now (bw_timers w) \<le> t0" "t0 + timeout (bw_button w) \<le> t1"
  shows "button_step (t1, Unpress) (button_step (t0, Press) w) =
    w\<lparr>bw_button := (bw_button w)\<lparr>pending := False, long_pressed := False,
                                    timeout_id := Handle (tq_next (bw_timers w))\<rparr>,
      bw_timers := \<lparr>tq_now = t1, tq_next = tq_next (bw_timers w) + 1, tq_armed = []\<rparr>,
      bw_calls := bw_calls w @ [LongPressed, LongCanceled]\<rparr>"
proof -
  have "button_step (t1, Unpress) (button_step (t0, Press) w)
      = unpress (button_advance t1 (button_step (t0, Press) w))"
    by (simp add: button_step_def)
  then show ?thesis
    unfolding long_press_fired [OF assms]
    using assms(1) by (simp add: unpress_def idle_def)
qed

text \<open>
  C5. From a button at rest with press-hold timeout \<open>T\<close>, pressed at \<open>t0\<close> and released
  at \<open>t1\<close>. If \<open>t1 < t0 + T\<close>, the calls made are exactly one short press, and none is
  added however long one waits afterwards (the timer was cleared). If \<open>t0 + T < t1\<close>, the
  calls made by any time between \<open>t0 + T\<close> and the release are exactly one long press,
  and with the release exactly one long press followed by one long cancel, with no
  short press and nothing added later. Either way the button is at rest again, so the
  same holds for the next gesture.
\<close>

theorem button_gesture:
  assumes "idle w" "tq_now (bw_timers w) \<le> t0" "t0 \<le> t1"
  shows "(t1 < t0 + timeout (bw_button w) \<longrightarrow>
            bw_calls (button_step (t1, Unpress) (button_step (t0, Press) w))
              = bw_calls w @ [ShortPressed]
          \<and> idle (button_step (t1, Unpress) (button_step (t0, Press) w))
          \<and> (\<forall>t2. bw_calls (button_advance t2
                        (button_step (t1, Unpress) (button_step (t0, Press) w)))
                    = bw_calls w @ [ShortPressed]))
    \<and> (t0 + timeout (bw_button w) < t1 \<longrightarrow>
            (\<forall>t. t0 + timeout (bw_button w) \<le> t \<and> t \<le> t1 \<longrightarrow>
                 bw_calls (button_advance t (button_step (t0, Press) w))
                   = bw_calls w @ [LongPressed])
          \<and> bw_calls (button_step (t1, Unpress) (button_step (t0, Press) w))
              = bw_calls w @ [LongPressed, LongCanceled]
          \<and> idle (button_step (t1, Unpress) (button_step (t0, Press) w))
          \<and> (\<forall>t2. bw_calls (button_advance t2
                        (button_step (t1, Unpress) (button_step (t0, Press) w)))
                    = bw_calls w @ [LongPressed, LongCanceled]))"
proof (intro conjI impI allI)
  assume lt: "t1 < t0 + timeout (bw_button w)"
  note s = short_press [OF assms lt]
  show "bw_calls (button_step (t1, Unpress) (button_step (t0, Press) w))
      = bw_calls w @ [ShortPressed]"
    unfolding s by simp
  show i: "idle (button_step (t1, Unpress) (button_step (t0, Press) w))"
    unfolding s using assms(1) by (simp add: idle_def)
  fix t2
  show "bw_calls (button_advance t2 (button_step (t1, Unpress) (button_step (t0, Press) w)))
      = bw_calls w @ [ShortPressed]"
    unfolding button_advance_idle [OF i] unfolding s by simp
next
  assume gt: "t0 + timeout (bw_button w) < t1"
  then have ge: "t0 + timeout (bw_button w) \<le> t1" by simp
  note l = long_press [OF assms(1,2) ge]
  show "bw_calls (button_step (t1, Unpress) (button_step (t0, Press) w))
      = bw_calls w @ [LongPressed, LongCanceled]"
    unfolding l by simp
  show i: "idle (button_step (t1, Unpress) (button_step (t0, Press) w))"
    unfolding l using assms(1) by (simp add: idle_def)
  { fix t2
    show "bw_calls (button_advance t2 (button_step (t1, Unpress) (button_step (t0, Press) w)))
        = bw_calls w @ [LongPressed, LongCanceled]"
      unfolding button_advance_idle [OF i] unfolding l by simp }
  fix t
  assume "t0 + timeout (bw_button w) \<le> t \<and> t \<le> t1"
  then have "t0 + timeout (bw_button w) \<le> t" by simp
  from long_press_fired [OF assms(1,2) this]
  show "bw_calls (button_advance t (button_step (t0, Press) w)) = bw_calls w @ [LongPressed]"
    by simp
qed

text \<open>Timeout 500, pressed at 0: released at 300, and held to 800.\<close>

theorem button_gesture_witness:
  "idle (button_world_new 500)
   \<and> bw_calls (button_step (300, Unpress) (button_step (0, Press) (button_world_new 500)))
       = [ShortPressed]
   \<and> bw_calls (button_advance 5000
         (button_step (300, Unpress) (button_step (0, Press) (button_world_new 500))))
       = [ShortPressed]
   \<and> bw_calls (button_advance 600 (button_step (0, Press) (button_world_new 500)))
       = [LongPressed]
   \<and> bw_calls (button_step (800, Unpress) (button_step (0, Press) (button_world_new 500)))
       = [LongPressed, LongCanceled]"
proof -
  have i: "idle (button_world_new 500)"
    by (simp add: idle_def button_world_new_def ButtonState_new_def timers_init_def)
  have n: "tq_now (bw_timers (button_world_new 500)) \<le> 0"
    by (simp add: button_world_new_def timers_init_def)
  have t: "timeout (bw_button (button_world_new 500)) = 500"
    and c: "bw_calls (button_world_new 500) = []"
    by (simp_all add: button_world_new_def ButtonState_new_def)
  have short: "(0::nat) \<le> 300" and long: "(0::nat) \<le> 800" by simp_all
  show ?thesis
    using button_gesture [OF i n short] button_gesture [OF i n long] i
    unfolding t c by simp
qed

section \<open>Properties of the continuous-jog feedrate\<close>

lemma abs_Number_of: "\<bar>Number_of (Fixed neg n f)\<bar> = real n / 10 ^ f"
  by (cases neg) simp_all

text \<open>With the pendant's constants \<open>map\<close> is the scaling by 3000 / 32767, to two decimals.\<close>

lemma map_js_linear:
  "map_js (real_of_int v) JOYSTICK_AXIS_MAX MAX_JOG_FEEDRATE = toFixed (real_of_int v * 3000 / 32767) 2"
proof -
  have "(real_of_int v + 32767) * 3000 / 32767 - 3000 = real_of_int v * 3000 / 32767"
    by (simp add: distrib_right add_divide_distrib)
  then show ?thesis
    unfolding map_js_def JOYSTICK_AXIS_MAX_def MAX_JOG_FEEDRATE_def by (simp only:)
qed

lemma feedrate_eq:
  "feedrate v = real_of_int \<lfloor>\<bar>real_of_int v\<bar> * 300000 / 32767 + 1 / 2\<rfloor> / 100"
proof -
  define r where "r = \<bar>real_of_int v\<bar> * 300000 / 32767 + 1 / 2"
  have arg: "\<bar>real_of_int v * 3000 / 32767\<bar> * 10 ^ 2 + 1 / 2 = r"
    unfolding r_def by (simp add: abs_mult)
  have "0 \<le> r" unfolding r_def by simp
  then have nonneg: "0 \<le> \<lfloor>r\<rfloor>" by simp
  have "feedrate v = real (nat \<lfloor>r\<rfloor>) / 10 ^ 2"
    unfolding feedrate_def map_js_linear toFixed_def abs_Number_of arg ..
  also have "\<dots> = real_of_int \<lfloor>r\<rfloor> / 100"
    using nonneg by simp
  finally show ?thesis unfolding r_def .
qed

lemma feedrate_16383: "feedrate 16383 = 1499.95"
proof -
  have "\<lfloor>\<bar>real_of_int 16383\<bar> * 300000 / 32767 + 1 / 2\<rfloor> = 149995"
    by (simp add: floor_eq_iff)
  then show ?thesis unfolding feedrate_eq by simp
qed

lemma feedrate_0: "feedrate 0 = 0"
  unfolding feedrate_eq by simp

text \<open>
  C4. \<open>decideFeedrate\<close> is the Euclidean norm of the horizontal and vertical feedrates;
  when the depth stick is active it is the minimum of that norm and the depth feedrate,
  or the depth feedrate alone when the norm is 0. Each per-axis feedrate is the absolute
  value of \<open>map(value, 32767, 3000)\<close>, that is \<open>\<bar>value\<bar> * 3000 / 32767\<close> rounded to two
  decimals. A horizontal value of 16383 with the other two sticks at rest gives 1499.95,
  within 0.05 of 1500.
\<close>

theorem feedrate_combination:
  "decideFeedrate x y z =
     (if ax_active z
      then (if sqrt ((feedrate (ax_value x))\<^sup>2 + (feedrate (ax_value y))\<^sup>2) \<noteq> 0
            then min (sqrt ((feedrate (ax_value x))\<^sup>2 + (feedrate (ax_value y))\<^sup>2))
                     (feedrate (ax_value z))
            else feedrate (ax_value z))
      else sqrt ((feedrate (ax_value x))\<^sup>2 + (feedrate (ax_value y))\<^sup>2))
   \<and> feedrate v = \<bar>Number_of (toFixed (real_of_int v * 3000 / 32767) 2)\<bar>
   \<and> feedrate v = real_of_int \<lfloor>\<bar>real_of_int v\<bar> * 300000 / 32767 + 1 / 2\<rfloor> / 100
   \<and> decideFeedrate (update 16383 AxisState_new) (update 0 AxisState_new)
         (update 0 AxisState_new) = 1499.95
   \<and> \<bar>decideFeedrate (update 16383 AxisState_new) (update 0 AxisState_new)
         (update 0 AxisState_new) - 1500\<bar> \<le> 0.05"
proof -
  have a: "decideFeedrate (update 16383 AxisState_new) (update 0 AxisState_new)
         (update 0 AxisState_new) = 1499.95"
    by (simp add: decideFeedrate_def update_def AxisState_new_def feedrate_16383 feedrate_0)
  have b: "feedrate v = \<bar>Number_of (toFixed (real_of_int v * 3000 / 32767) 2)\<bar>"
    unfolding feedrate_def map_js_linear ..
  have c: "decideFeedrate x y z =
     (if ax_active z
      then (if sqrt ((feedrate (ax_value x))\<^sup>2 + (feedrate (ax_value y))\<^sup>2) \<noteq> 0
            then min (sqrt ((feedrate (ax_value x))\<^sup>2 + (feedrate (ax_value y))\<^sup>2))
                     (feedrate (ax_value z))
            else feedrate (ax_value z))
      else sqrt ((feedrate (ax_value x))\<^sup>2 + (feedrate (ax_value y))\<^sup>2))"
    by (simp add: decideFeedrate_def Let_def)
  have d: "\<bar>(1499.95 :: real) - 1500\<bar> \<le> 0.05" by simp
  show ?thesis
    unfolding a using b c d feedrate_eq [of v] by blast
qed

section \<open>Properties of the spindle control\<close>

text \<open>
  With both modifiers held, the speed sent is \<open>-rt\<close> to two decimals: the
  three-parameter \<open>map\<close> is called with \<open>in_range_half = -32767\<close> and
  \<open>out_range_half = 32767\<close>.
\<close>

lemma triggerMovement_speed:
  assumes "lb s" "rb s"
  shows "sp_socket (triggerMovement s) =
    sp_socket s @ [Command ''gcode'' (''M3 S'' @ fixed_text (toFixed (- real_of_int (rt s)) 2))]"
proof -
  have "(real_of_int (rt s) + - 32767) * 32767 / (- 32767) - 32767 = - real_of_int (rt s)"
    by (simp add: field_simps)
  then show ?thesis
    using assms by (simp add: triggerMovement_def map_js_def JOYSTICK_AXIS_MAX_def)
qed

text \<open>
  C2: the code with LB and RB held and the right trigger at 32767 and at -32767. It
  sends \<open>M3 S-32767.00\<close> and \<open>M3 S32767.00\<close>, both outside \<open>[0, 24000]\<close>. The
  five-parameter \<open>map\<close> that the call was written for would have given 24000.00 and
  0.00.
\<close>

theorem spindle_speed_shadowed:
  "sp_socket (triggerMovement (onRT 32767 (onRB 1 (onLB 1 spindle_init))))
     = [Command ''gcode'' ''M3 S-32767.00'']
   \<and> sp_socket (triggerMovement (onRT (- 32767) (onRB 1 (onLB 1 spindle_init))))
     = [Command ''gcode'' ''M3 S32767.00'']
   \<and> fixed_text (map_shadowed 32767 (- JOYSTICK_AXIS_MAX) JOYSTICK_AXIS_MAX
        SPINDLE_MIN_SPEED SPINDLE_MAX_SPEED) = ''24000.00''
   \<and> fixed_text (map_shadowed (- 32767) (- JOYSTICK_AXIS_MAX) JOYSTICK_AXIS_MAX
        SPINDLE_MIN_SPEED SPINDLE_MAX_SPEED) = ''0.00''"
  by (simp add: triggerMovement_def onRT_def onRB_def onLB_def spindle_init_def map_js_def
      map_shadowed_def toFixed_def JOYSTICK_AXIS_MAX_def SPINDLE_MIN_SPEED_def
      SPINDLE_MAX_SPEED_def digits_of.simps Let_def)

section \<open>Properties of the jog throttle\<close>

text \<open>
  What holds of the flag: while it is set \<open>jog\<close> does nothing; when it is clear \<open>jog\<close>
  sends one command and sets it, so that a second call sends nothing; an
  acknowledgement clears it and leaves every armed timer in place.
\<close>

lemma jog_while_pending:
  assumes "jog_pending w"
  shows "jog cmd w = w"
  using assms by (simp add: jog_def)

lemma jog_when_free:
  assumes "\<not> jog_pending w"
  shows "jw_socket (jog cmd w) = jw_socket w @ [(tq_now (jw_timers w), Command ''gcode'' cmd)]"
    and "jog_pending (jog cmd w)"
    and "jog cmd' (jog cmd w) = jog cmd w"
  using assms by (simp_all add: jog_def)

lemma serialport_read_ack:
  assumes "str_includes data ''ok'' \<or> str_includes data ''error''"
  shows "\<not> jog_pending (serialport_read data w)"
    and "jw_timers (serialport_read data w) = jw_timers w"
  using assms by (simp_all add: serialport_read_def clearTimeout_def)

text \<open>
  C1: the code on a jog at 0 ms, the acknowledgement \<open>ok\<close> at 100 ms, a second jog at
  900 ms and a third at 1100 ms. The acknowledgement leaves the first command's timer
  armed (due at 1000 ms). The second command is sent at 900 ms and sets the flag; the
  first command's timer clears the flag at 1000 ms, so the third command is sent at
  1100 ms, 200 ms after the second, with no acknowledgement in between.
\<close>

theorem stale_timeout_clears_pending:
  "jw_socket (foldl jog_step jog_world_init
      [(0, Jog ''$J=G91G21X1F1000.00''), (100, Read ''ok''),
       (900, Jog ''$J=G91G21X1F1000.00''), (1100, Jog ''$J=G91G21X1F1000.00'')])
     = [(0, Command ''gcode'' ''$J=G91G21X1F1000.00''),
        (900, Command ''gcode'' ''$J=G91G21X1F1000.00''),
        (1100, Command ''gcode'' ''$J=G91G21X1F1000.00'')]
   \<and> tq_armed (jw_timers (foldl jog_step jog_world_init
      [(0, Jog ''$J=G91G21X1F1000.00''), (100, Read ''ok'')])) = [(1, 1000)]
   \<and> jog_pending (foldl jog_step jog_world_init
      [(0, Jog ''$J=G91G21X1F1000.00''), (100, Read ''ok''),
       (900, Jog ''$J=G91G21X1F1000.00'')])
   \<and> \<not> jog_pending (jog_advance 1000 (foldl jog_step jog_world_init
      [(0, Jog ''$J=G91G21X1F1000.00''), (100, Read ''ok''),
       (900, Jog ''$J=G91G21X1F1000.00'')]))"
  by (simp add: jog_step_def jog_advance_def take_due_def jog_def jogPendingTimeout_def
      serialport_read_def clearTimeout_def setTimeout_def jog_world_init_def timers_init_def
      JOG_COMMAND_TIMEOUT_def Let_def)

section \<open>Properties of the dispatch\<close>

text \<open>
  C3: the code on a button event of control 15 and an axis event of control 8, neither
  an init event. Both listeners throw a \<open>TypeError\<close>; nothing is logged and nothing is
  dropped quietly. The reader does emit such an event: the record 00 00 00 00 01 00 01 0F
  is forwarded as a button event of control 15.
\<close>

theorem unknown_control_throws:
  "deliver \<lparr>ev_time = 0, ev_value = 1, ev_number = 15, ev_init = False,
            ev_type = Some Button, ev_id = 0\<rparr> = Inl TypeError
   \<and> deliver \<lparr>ev_time = 0, ev_value = 1, ev_number = 8, ev_init = False,
            ev_type = Some Axis, ev_id = 0\<rparr> = Inl TypeError
   \<and> read_all \<lparr>js_id = 0, deadzone = 750, sensitivity = 100\<rparr> joystick_init
        [[0, 0, 0, 0, 0x01, 0x00, 0x01, 15]]
      = Inr (joystick_init,
             [Emit \<lparr>ev_time = 0, ev_value = 1, ev_number = 15, ev_init = False,
                     ev_type = Some Button, ev_id = 0\<rparr>])"
  by (simp add: deliver_def joy_on_button_def joy_on_axis_def BUTTONS_def AXES_def
      onRead_def parse_def readUInt32LE_def readInt16LE_def byte_at_def filter_event_def)

text \<open>The same for every control number past the two tables.\<close>

lemma unknown_button:
  assumes "15 \<le> ev_number e"
  shows "joy_on_button e = Inl TypeError"
  using assms by (simp add: joy_on_button_def BUTTONS_def)

lemma unknown_axis:
  assumes "8 \<le> ev_number e"
  shows "joy_on_axis e = Inl TypeError"
  using assms by (simp add: joy_on_axis_def AXES_def)

end
